theory Spec2Isabelle
  imports Main "HOL-Library.Sublist"
begin

section \<open>The scenario command of the CLI (commands/scenario/index.ts)\<close>

text \<open>
  The theory embeds the two actions of \<^verbatim>\<open>commands/scenario/index.ts\<close>: the action of
  \<^verbatim>\<open>scenario run\<close> (lines 26 to 249) and the counting part of \<^verbatim>\<open>scenario matrix\<close>,
  with natural numbers for the counts.

  The action is an \<^verbatim>\<open>async\<close> function made of one \<^verbatim>\<open>try\<close>/\<^verbatim>\<open>catch\<close>/\<^verbatim>\<open>finally\<close>
  statement. It is modelled by explicit state passing: the state holds the \<^verbatim>\<open>let\<close>
  variables declared in lines 29 to 36 and the trace of the calls made to the
  collaborators (reporter, runtime factory, providers, mock engine). Each statement
  returns the new state together with the way it completed: normally, by a raised
  exception, or by \<^verbatim>\<open>process.exit(code)\<close>, which ends the process at once.

  The collaborators are not part of the file. What they return, and whether they raise,
  is read from a record \<open>world\<close>, so that every theorem holds for whatever they do.
  The reporter, the logger and the constructors are taken not to raise, and the calls
  to the logger are left out: they do not change the control flow. Each \<^verbatim>\<open>await\<close>
  is the call it waits for: the action does nothing else in between.
\<close>

subsection \<open>Data model\<close>

text \<open>
  An evaluator as the action reads it: \<^verbatim>\<open>evaluation.type\<close>, \<^verbatim>\<open>evaluation.value\<close>
  and \<^verbatim>\<open>evaluation.pattern\<close>. A JavaScript string is a sequence of code units, compared
  unit by unit; it is modelled as a list of characters.
\<close>

record evaluation =
  ev_type :: string
  ev_value :: string
  ev_pattern :: string

record step =
  evaluations :: "evaluation list option"

record execution_result =
  stdout :: string

record evaluation_result =
  success :: bool
  message :: string

text \<open>An entry of \<^verbatim>\<open>scenario.plugins\<close>: a name, or an object with a name and an optional flag.\<close>

datatype plugin_ref = PluginName string | PluginObject string "bool option"

type_synonym mock = string

record scenario =
  plugins :: "plugin_ref list option"
  environment_type :: string
  setup_mocks :: "mock list option"
  run :: "step list"
  judgment_strategy :: "string option"

subsection \<open>Evaluation without a runtime (lines 165 to 197)\<close>

text \<open>
  \<^verbatim>\<open>String.prototype.includes\<close>: the search string is looked for at every position of
  the receiver, from the first to the last.
\<close>

fun starts_with :: "'a list \<Rightarrow> 'a list \<Rightarrow> bool" where
  "starts_with s [] = True"
| "starts_with [] (c # v) = False"
| "starts_with (d # s) (c # v) = (d = c \<and> starts_with s v)"

fun str_includes :: "'a list \<Rightarrow> 'a list \<Rightarrow> bool" where
  "str_includes [] v = starts_with [] v"
| "str_includes (d # s) v = (starts_with (d # s) v \<or> str_includes s v)"

text \<open>The template literal \<^verbatim>\<open>${success}\<close> of a boolean.\<close>

definition show_bool :: "bool \<Rightarrow> string" where
  "show_bool b = (if b then ''true'' else ''false'')"

text \<open>
  \<^verbatim>\<open>new RegExp(pattern)\<close> is the engine of the platform: \<open>rx pattern\<close> is \<open>None\<close> when
  the constructor raises a SyntaxError, and \<open>Some t\<close> when it returns a fresh regular
  expression whose \<^verbatim>\<open>test\<close> method is \<open>t\<close>.

  \<open>evaluate_basic\<close> is the body of the loop over \<^verbatim>\<open>step.evaluations\<close> (lines 171 to 192);
  \<open>None\<close> is a raised exception.
\<close>

type_synonym regexp_engine = "string \<Rightarrow> (string \<Rightarrow> bool) option"

definition evaluate_basic ::
  "regexp_engine \<Rightarrow> evaluation \<Rightarrow> execution_result \<Rightarrow> evaluation_result option" where
  "evaluate_basic rx evaluation result =
     (if ev_type evaluation = ''string_contains'' then
        (let success = str_includes (stdout result) (ev_value evaluation) in
         Some \<lparr>success = success,
               message = ''Checked if stdout contains '' @ [CHR 0x22] @ ev_value evaluation
                 @ [CHR 0x22] @ ''. Result: '' @ show_bool success\<rparr>)
      else if ev_type evaluation = ''regex_match'' then
        (case rx (ev_pattern evaluation) of
           None \<Rightarrow> None
         | Some test \<Rightarrow>
             (let success = test (stdout result) in
              Some \<lparr>success = success,
                    message = ''Checked if stdout matches regex '' @ [CHR 0x22]
                      @ ev_pattern evaluation @ [CHR 0x22] @ ''. Result: ''
                      @ show_bool success\<rparr>))
      else
        Some \<lparr>success = False,
              message = ''Unknown evaluator type: '' @ [CHR 0x27] @ ev_type evaluation
                @ [CHR 0x27] @ '' (requires runtime)''\<rparr>)"

text \<open>
  The inner loop \<^verbatim>\<open>for (const evaluation of step.evaluations)\<close>: each result is pushed
  onto \<^verbatim>\<open>allEvaluationResults\<close>; an exception leaves the loop.
\<close>

fun evaluate_step_basic ::
  "regexp_engine \<Rightarrow> evaluation list \<Rightarrow> execution_result \<Rightarrow> evaluation_result list
     \<Rightarrow> evaluation_result list option" where
  "evaluate_step_basic rx [] result acc = Some acc"
| "evaluate_step_basic rx (evaluation # rest) result acc =
     (case evaluate_basic rx evaluation result of
        None \<Rightarrow> None
      | Some evaluationResult \<Rightarrow> evaluate_step_basic rx rest result (acc @ [evaluationResult]))"

text \<open>
  The outer loop \<^verbatim>\<open>for (let i = 0; i < results.length; i++)\<close> with
  \<^verbatim>\<open>step = scenario.run[i]\<close> and \<^verbatim>\<open>result = results[i]\<close>. When the results are more than
  the steps, \<^verbatim>\<open>step\<close> is undefined and \<^verbatim>\<open>step.evaluations\<close> raises a TypeError. A step
  with no evaluations, or with an empty list of them, is skipped.
\<close>

fun evaluate_basic_loop ::
  "regexp_engine \<Rightarrow> step list \<Rightarrow> execution_result list \<Rightarrow> evaluation_result list
     \<Rightarrow> evaluation_result list option" where
  "evaluate_basic_loop rx steps [] acc = Some acc"
| "evaluate_basic_loop rx [] (result # results) acc = None"
| "evaluate_basic_loop rx (step # steps) (result # results) acc =
     (case evaluations step of
        None \<Rightarrow> evaluate_basic_loop rx steps results acc
      | Some [] \<Rightarrow> evaluate_basic_loop rx steps results acc
      | Some (e # es) \<Rightarrow>
          (case evaluate_step_basic rx (e # es) result acc of
             None \<Rightarrow> None
           | Some acc' \<Rightarrow> evaluate_basic_loop rx steps results acc'))"

subsection \<open>Evaluation with a runtime (lines 149 to 160)\<close>

text \<open>
  \<^verbatim>\<open>evaluationEngine.runEvaluations(step.evaluations, result)\<close> is a collaborator:
  \<open>engine evs result\<close> is \<open>None\<close> when it raises, and the results it returns otherwise.
\<close>

type_synonym evaluation_engine =
  "evaluation list \<Rightarrow> execution_result \<Rightarrow> evaluation_result list option"

fun evaluate_runtime_loop ::
  "evaluation_engine \<Rightarrow> step list \<Rightarrow> execution_result list \<Rightarrow> evaluation_result list
     \<Rightarrow> evaluation_result list option" where
  "evaluate_runtime_loop engine steps [] acc = Some acc"
| "evaluate_runtime_loop engine [] (result # results) acc = None"
| "evaluate_runtime_loop engine (step # steps) (result # results) acc =
     (case evaluations step of
        None \<Rightarrow> evaluate_runtime_loop engine steps results acc
      | Some [] \<Rightarrow> evaluate_runtime_loop engine steps results acc
      | Some (e # es) \<Rightarrow>
          (case engine (e # es) result of
             None \<Rightarrow> None
           | Some evaluationResults \<Rightarrow>
               evaluate_runtime_loop engine steps results (acc @ evaluationResults)))"

subsection \<open>Judgment (lines 204 to 211)\<close>

text \<open>
  \<^verbatim>\<open>scenario.judgment?.strategy\<close> is \<open>None\<close> when the scenario has no judgment.
  \<^verbatim>\<open>every\<close> and \<^verbatim>\<open>some\<close> visit the results from the first to the last.
\<close>

definition judge :: "string option \<Rightarrow> evaluation_result list \<Rightarrow> bool" where
  "judge strategy allEvaluationResults =
     (if strategy = Some ''all_pass'' then list_all success allEvaluationResults
      else if strategy = Some ''any_pass'' then list_ex success allEvaluationResults
      else False)"

subsection \<open>Collaborators\<close>

text \<open>
  The runtime handle: \<^verbatim>\<open>runtime.getService('e2b')\<close> gives a service or nothing; the
  service may have a \<^verbatim>\<open>stop\<close> function, which may raise.
\<close>

record e2b_service =
  has_stop :: bool
  stop_ok :: bool

record runtime_handle =
  getService_e2b :: "e2b_service option"

text \<open>
  What \<^verbatim>\<open>createScenarioServerAndAgent\<close> returns. A handle that the action only tests
  for truthiness is a boolean (true when it is an object) or an option.
\<close>

record created =
  created_server :: bool
  created_runtime :: "runtime_handle option"
  created_agentId :: "string option"
  created_createdServer :: bool

text \<open>
  Lines 39 to 54: reading the file and \<^verbatim>\<open>yaml.load\<close> may raise, and
  \<^verbatim>\<open>ScenarioSchema.safeParse\<close> accepts the scenario or not.
  Lines 59 to 65: \<^verbatim>\<open>PluginParser.parseAndValidate\<close> may raise, and finds the plugins
  valid or not.
\<close>

datatype loaded = LoadRaises | ValidationFailed | Validated scenario

datatype plugin_check = ParseRaises | PluginsInvalid | PluginsValid

record world =
  file_exists :: bool
  load_scenario :: loaded
  parse_plugins :: plugin_check
  create_server_agent :: "string list \<Rightarrow> created option"
  apply_mocks_ok :: bool
  setup_ok :: bool
  provider_run :: "execution_result list option"
  run_evaluations :: evaluation_engine
  regexp :: regexp_engine
  revert_ok :: bool
  teardown_ok :: bool

subsection \<open>State and completion\<close>

datatype provider_kind = LocalEnvironmentProvider | E2BEnvironmentProvider

text \<open>
  The calls to the collaborators, in the order in which they are made.
  \<open>RunEvaluationsBasic\<close> is no call: it marks the start of the loops without a runtime
  (line 163).
\<close>

datatype event =
    ReportStart
  | CreateScenarioServerAndAgent "string list"
  | NewProvider provider_kind
  | NewMockEngine
  | ApplyMocks "mock list"
  | ProviderSetup
  | ProviderRun
  | ReportExecutionResult execution_result
  | NewEvaluationEngine
  | RunEvaluationsBasic
  | ReportEvaluationResults "evaluation_result list"
  | RevertMocks
  | ProviderTeardown
  | E2BStop
  | RuntimeClose
  | ServerStop
  | ReportFinalResult bool

text \<open>
  The variables of lines 29 to 36. \<open>server\<close>, \<open>mockEngine\<close> and \<open>reporter\<close> are true when
  the variable holds an object and false when it is \<^verbatim>\<open>null\<close>.
\<close>

record locals =
  provider :: "provider_kind option"
  runtime :: "runtime_handle option"
  server :: bool
  agentId :: "string option"
  createdServer :: bool
  mockEngine :: bool
  finalStatus :: bool
  reporter :: bool
  trace :: "event list"

definition initial :: locals where
  "initial = \<lparr>provider = None, runtime = None, server = False, agentId = None,
     createdServer = False, mockEngine = False, finalStatus = False, reporter = False,
     trace = []\<rparr>"

datatype 'a completion = Completed 'a | Raised | Exited nat

definition emit :: "event \<Rightarrow> locals \<Rightarrow> locals" where
  "emit e s = s\<lparr>trace := trace s @ [e]\<rparr>"

text \<open>Sequencing: the second statement runs only when the first completes normally.\<close>

definition and_then ::
  "locals \<times> 'a completion \<Rightarrow> (locals \<Rightarrow> 'a \<Rightarrow> locals \<times> 'b completion)
     \<Rightarrow> locals \<times> 'b completion" where
  "and_then m f =
     (case m of
        (s, Completed x) \<Rightarrow> f s x
      | (s, Raised) \<Rightarrow> (s, Raised)
      | (s, Exited code) \<Rightarrow> (s, Exited code))"

text \<open>
  \<^verbatim>\<open>try { body } catch { handler } finally { finalizer }\<close>. A raised exception runs the
  handler, and the finalizer runs after the body or the handler, but not after
  \<^verbatim>\<open>process.exit\<close>: the process has ended. An exception raised by the handler goes
  on after the finalizer unless the finalizer completes otherwise.
\<close>

definition try_catch_finally ::
  "(locals \<Rightarrow> locals \<times> unit completion) \<Rightarrow> (locals \<Rightarrow> locals \<times> unit completion)
     \<Rightarrow> (locals \<Rightarrow> locals \<times> unit completion) \<Rightarrow> locals \<Rightarrow> locals \<times> unit completion" where
  "try_catch_finally body handler finalizer s =
     (case body s of
        (s1, Exited code) \<Rightarrow> (s1, Exited code)
      | (s1, Completed u) \<Rightarrow> finalizer s1
      | (s1, Raised) \<Rightarrow>
          (case handler s1 of
             (s2, Exited code) \<Rightarrow> (s2, Exited code)
           | (s2, Completed u) \<Rightarrow> finalizer s2
           | (s2, Raised) \<Rightarrow>
               (case finalizer s2 of
                  (s3, Completed u) \<Rightarrow> (s3, Raised)
                | (s3, c) \<Rightarrow> (s3, c))))"

subsection \<open>The action of scenario run: the try block (lines 39 to 211)\<close>

text \<open>Lines 39 to 54: the file is read and validated.\<close>

definition read_scenario :: "world \<Rightarrow> locals \<Rightarrow> locals \<times> scenario completion" where
  "read_scenario w s =
     (if \<not> file_exists w then (s, Exited 1)
      else case load_scenario w of
             LoadRaises \<Rightarrow> (s, Raised)
           | ValidationFailed \<Rightarrow> (s, Exited 1)
           | Validated scenario \<Rightarrow> (s, Completed scenario))"

text \<open>Lines 57 to 78: the plugins are parsed when the scenario names at least one.\<close>

definition check_plugins :: "world \<Rightarrow> scenario \<Rightarrow> locals \<Rightarrow> locals \<times> unit completion" where
  "check_plugins w scenario s =
     (case plugins scenario of
        Some (p # ps) \<Rightarrow>
          (case parse_plugins w of
             ParseRaises \<Rightarrow> (s, Raised)
           | PluginsInvalid \<Rightarrow> (s, Exited 1)
           | PluginsValid \<Rightarrow> (s, Completed ()))
      | _ \<Rightarrow> (s, Completed ()))"

text \<open>Lines 81 and 82.\<close>

definition report_start :: "locals \<Rightarrow> locals \<times> unit completion" where
  "report_start s = (emit ReportStart (s\<lparr>reporter := True\<rparr>), Completed ())"

text \<open>
  Lines 83 to 95. \<^verbatim>\<open>p.enabled !== false\<close> keeps a plain name and an object without the
  flag; \<^verbatim>\<open>Array.from(new Set(xs))\<close> keeps the first occurrence of each name, in order.
\<close>

definition defaultPlugins :: "string list" where
  "defaultPlugins = [''@elizaos/plugin-sql'', ''@elizaos/plugin-bootstrap'',
     ''@elizaos/plugin-e2b'', ''@elizaos/plugin-openai'']"

fun plugin_enabled :: "plugin_ref \<Rightarrow> bool" where
  "plugin_enabled (PluginName n) = True"
| "plugin_enabled (PluginObject n enabled) = (enabled \<noteq> Some False)"

fun plugin_name :: "plugin_ref \<Rightarrow> string" where
  "plugin_name (PluginName n) = n"
| "plugin_name (PluginObject n enabled) = n"

definition scenarioPlugins :: "scenario \<Rightarrow> string list" where
  "scenarioPlugins scenario =
     (case plugins scenario of
        Some ps \<Rightarrow> map plugin_name (filter plugin_enabled ps)
      | None \<Rightarrow> [])"

fun set_from :: "string list \<Rightarrow> string list \<Rightarrow> string list" where
  "set_from seen [] = seen"
| "set_from seen (x # xs) = set_from (if x \<in> set seen then seen else seen @ [x]) xs"

definition finalPlugins :: "scenario \<Rightarrow> string list" where
  "finalPlugins scenario = set_from [] (scenarioPlugins scenario @ defaultPlugins)"

text \<open>
  Lines 100 to 104 and 113 to 117: the server and the agent are created and the four
  variables assigned.
\<close>

definition create_and_assign ::
  "world \<Rightarrow> scenario \<Rightarrow> locals \<Rightarrow> locals \<times> unit completion" where
  "create_and_assign w scenario s =
     (let s1 = emit (CreateScenarioServerAndAgent (finalPlugins scenario)) s in
      case create_server_agent w (finalPlugins scenario) of
        None \<Rightarrow> (s1, Raised)
      | Some c \<Rightarrow>
          (s1\<lparr>server := created_server c, runtime := created_runtime c,
               agentId := created_agentId c, createdServer := created_createdServer c\<rparr>,
           Completed ()))"

text \<open>
  Lines 98 to 124. In the \<^verbatim>\<open>e2b\<close> branch, \<^verbatim>\<open>runtime.getService\<close> on a runtime that is
  \<^verbatim>\<open>null\<close> raises a TypeError. Any other type than \<^verbatim>\<open>e2b\<close> and \<^verbatim>\<open>local\<close> ends the
  process with code 1.
\<close>

definition select_provider ::
  "world \<Rightarrow> scenario \<Rightarrow> locals \<Rightarrow> locals \<times> unit completion" where
  "select_provider w scenario s =
     (if environment_type scenario = ''e2b'' then
        and_then (create_and_assign w scenario s) (\<lambda>s1 u.
          case runtime s1 of
            None \<Rightarrow> (s1, Raised)
          | Some rt \<Rightarrow>
              (let hasE2B = (getService_e2b rt \<noteq> None);
                   kind = (if hasE2B then E2BEnvironmentProvider else LocalEnvironmentProvider)
               in (emit (NewProvider kind) (s1\<lparr>provider := Some kind\<rparr>), Completed ())))
      else if environment_type scenario = ''local'' then
        and_then
          (if \<not> server s \<or> runtime s = None \<or> agentId s = None
           then create_and_assign w scenario s else (s, Completed ()))
          (\<lambda>s1 u. (emit (NewProvider LocalEnvironmentProvider)
                      (s1\<lparr>provider := Some LocalEnvironmentProvider\<rparr>), Completed ()))
      else (s, Exited 1))"

text \<open>
  Lines 127 to 132. \<^verbatim>\<open>scenario.setup?.mocks\<close> is truthy when the scenario declares the
  list, empty or not. \<^verbatim>\<open>applyMocks\<close> may raise.
\<close>

definition initialize_mocks ::
  "world \<Rightarrow> bool \<Rightarrow> scenario \<Rightarrow> locals \<Rightarrow> locals \<times> unit completion" where
  "initialize_mocks w live scenario s =
     (case setup_mocks scenario of
        Some mocks \<Rightarrow>
          (if runtime s \<noteq> None \<and> \<not> live then
             (let s1 = emit NewMockEngine (s\<lparr>mockEngine := True\<rparr>);
                  s2 = emit (ApplyMocks mocks) s1
              in if apply_mocks_ok w then (s2, Completed ()) else (s2, Raised))
           else (s, Completed ()))
      | None \<Rightarrow> (s, Completed ()))"

text \<open>Lines 135 to 142: setup, run, and the report of each execution result.\<close>

definition provider_setup :: "world \<Rightarrow> locals \<Rightarrow> locals \<times> unit completion" where
  "provider_setup w s =
     (let s1 = emit ProviderSetup s in
      if setup_ok w then (s1, Completed ()) else (s1, Raised))"

definition provider_run_and_report ::
  "world \<Rightarrow> locals \<Rightarrow> locals \<times> execution_result list completion" where
  "provider_run_and_report w s =
     (let s1 = emit ProviderRun s in
      case provider_run w of
        None \<Rightarrow> (s1, Raised)
      | Some results \<Rightarrow>
          (s1\<lparr>trace := trace s1 @ map ReportExecutionResult results\<rparr>, Completed results))"

text \<open>Lines 145 to 198: the evaluations, with the runtime when there is one.\<close>

definition run_all_evaluations ::
  "world \<Rightarrow> scenario \<Rightarrow> execution_result list \<Rightarrow> locals
     \<Rightarrow> locals \<times> evaluation_result list completion" where
  "run_all_evaluations w scenario results s =
     (case runtime s of
        Some rt \<Rightarrow>
          (let s1 = emit NewEvaluationEngine s in
           case evaluate_runtime_loop (run_evaluations w) (run scenario) results [] of
             None \<Rightarrow> (s1, Raised)
           | Some allEvaluationResults \<Rightarrow> (s1, Completed allEvaluationResults))
      | None \<Rightarrow>
          (let s1 = emit RunEvaluationsBasic s in
           case evaluate_basic_loop (regexp w) (run scenario) results [] of
             None \<Rightarrow> (s1, Raised)
           | Some allEvaluationResults \<Rightarrow> (s1, Completed allEvaluationResults)))"

text \<open>Lines 201 to 211: the report of the evaluation results and the judgment.\<close>

definition report_and_judge ::
  "scenario \<Rightarrow> evaluation_result list \<Rightarrow> locals \<Rightarrow> locals \<times> unit completion" where
  "report_and_judge scenario allEvaluationResults s =
     ((emit (ReportEvaluationResults allEvaluationResults) s)
         \<lparr>finalStatus := judge (judgment_strategy scenario) allEvaluationResults\<rparr>,
      Completed ())"

definition try_block :: "world \<Rightarrow> bool \<Rightarrow> locals \<Rightarrow> locals \<times> unit completion" where
  "try_block w live s =
     and_then (read_scenario w s) (\<lambda>s scenario.
     and_then (check_plugins w scenario s) (\<lambda>s u.
     and_then (report_start s) (\<lambda>s u.
     and_then (select_provider w scenario s) (\<lambda>s u.
     and_then (initialize_mocks w live scenario s) (\<lambda>s u.
     and_then (provider_setup w s) (\<lambda>s u.
     and_then (provider_run_and_report w s) (\<lambda>s results.
     and_then (run_all_evaluations w scenario results s) (\<lambda>s allEvaluationResults.
     report_and_judge scenario allEvaluationResults s))))))))"

subsection \<open>The catch block (lines 212 to 215) and the finally block (lines 216 to 248)\<close>

definition catch_block :: "locals \<Rightarrow> locals \<times> unit completion" where
  "catch_block s = (s, Exited 1)"

text \<open>Lines 218 to 221.\<close>

definition revert_mocks :: "world \<Rightarrow> locals \<Rightarrow> locals \<times> unit completion" where
  "revert_mocks w s =
     (if mockEngine s then
        (let s1 = emit RevertMocks s in
         if revert_ok w then (s1, Completed ()) else (s1, Raised))
      else (s, Completed ()))"

text \<open>Lines 223 to 226.\<close>

definition teardown :: "world \<Rightarrow> locals \<Rightarrow> locals \<times> unit completion" where
  "teardown w s =
     (if provider s \<noteq> None then
        (let s1 = emit ProviderTeardown s in
         if teardown_ok w then (s1, Completed ()) else (s1, Raised))
      else (s, Completed ()))"

text \<open>
  Lines 227 to 243: the runtime and the server are stopped; each exception is caught
  and dropped, and an exception of \<^verbatim>\<open>stop\<close> skips \<^verbatim>\<open>runtime.close\<close>.
\<close>

definition close_runtime :: "locals \<Rightarrow> locals \<times> unit completion" where
  "close_runtime s =
     (case runtime s of
        None \<Rightarrow> (s, Completed ())
      | Some rt \<Rightarrow>
          (case getService_e2b rt of
             Some e2bService \<Rightarrow>
               (if has_stop e2bService then
                  (if stop_ok e2bService then (emit RuntimeClose (emit E2BStop s), Completed ())
                   else (emit E2BStop s, Completed ()))
                else (emit RuntimeClose s, Completed ()))
           | None \<Rightarrow> (emit RuntimeClose s, Completed ())))"

definition stop_server :: "locals \<Rightarrow> locals \<times> unit completion" where
  "stop_server s =
     (if server s \<and> createdServer s then (emit ServerStop s, Completed ())
      else (s, Completed ()))"

text \<open>Lines 246 and 247.\<close>

definition report_and_exit :: "locals \<Rightarrow> locals \<times> unit completion" where
  "report_and_exit s =
     ((if reporter s then emit (ReportFinalResult (finalStatus s)) s else s),
      Exited (if finalStatus s then 0 else 1))"

definition finally_block :: "world \<Rightarrow> locals \<Rightarrow> locals \<times> unit completion" where
  "finally_block w s =
     and_then (revert_mocks w s) (\<lambda>s u.
     and_then (teardown w s) (\<lambda>s u.
     and_then (close_runtime s) (\<lambda>s u.
     and_then (stop_server s) (\<lambda>s u.
     report_and_exit s))))"

text \<open>The action, from the initial values of its variables.\<close>

definition run_action :: "world \<Rightarrow> bool \<Rightarrow> locals \<times> unit completion" where
  "run_action w live =
     try_catch_finally (try_block w live) catch_block (finally_block w) initial"

subsection \<open>The action of scenario matrix: counting (lines 329, 330 and 362)\<close>

record matrix_axis =
  parameter :: string
  axis_values :: "string list"

record matrix_config =
  base_scenario :: string
  runs_per_combination :: nat
  matrix :: "matrix_axis list"

text \<open>
  Modelled from the spec: \<^verbatim>\<open>calculateTotalCombinations\<close> is imported from
  \<^verbatim>\<open>./src/matrix-schema\<close>, which is not among the sources. The specification gives it
  as the product of \<^verbatim>\<open>values.length\<close> over all axes, 1 for no axis; the product is
  accumulated over the axes in their order, from 1.
\<close>

definition calculateTotalCombinations :: "matrix_config \<Rightarrow> nat" where
  "calculateTotalCombinations config =
     foldl (\<lambda>total axis. total * length (axis_values axis)) 1 (matrix config)"

text \<open>
  Modelled from the spec: \<^verbatim>\<open>calculateTotalRuns\<close> is imported from the same missing
  module. The specification gives it as the total of combinations times
  \<^verbatim>\<open>runs_per_combination\<close>.
\<close>

definition calculateTotalRuns :: "matrix_config \<Rightarrow> nat" where
  "calculateTotalRuns config = calculateTotalCombinations config * runs_per_combination config"

text \<open>
  Modelled from the spec: \<^verbatim>\<open>generateParameterCombinations\<close> is imported from the same
  missing module. The specification gives it as the Cartesian product of the axes, one
  chosen value for each parameter, with the last axis changing fastest.
\<close>

fun combinations_of :: "matrix_axis list \<Rightarrow> (string \<times> string) list list" where
  "combinations_of [] = [[]]"
| "combinations_of (axis # axes) =
     concat (map (\<lambda>v. map (\<lambda>combo. (parameter axis, v) # combo) (combinations_of axes))
       (axis_values axis))"

definition generateParameterCombinations :: "matrix_config \<Rightarrow> (string \<times> string) list list" where
  "generateParameterCombinations config = combinations_of (matrix config)"

subsection \<open>Sample inputs\<close>

text \<open>
  An engine that agrees with \<^verbatim>\<open>new RegExp\<close> on the patterns used below: the pattern
  \<^verbatim>\<open>(\<close> is rejected (an unterminated group), and a pattern of letters only matches
  where it occurs.
\<close>

definition sample_regexp :: regexp_engine where
  "sample_regexp pattern =
     (if pattern = ''('' then None else Some (\<lambda>out. str_includes out pattern))"

definition contains_OK :: evaluation where
  "contains_OK = \<lparr>ev_type = ''string_contains'', ev_value = ''OK'', ev_pattern = []\<rparr>"

definition matches_open_paren :: evaluation where
  "matches_open_paren = \<lparr>ev_type = ''regex_match'', ev_value = [], ev_pattern = ''(''\<rparr>"

definition matches_OK :: evaluation where
  "matches_OK = \<lparr>ev_type = ''regex_match'', ev_value = [], ev_pattern = ''OK''\<rparr>"

definition llm_judge :: evaluation where
  "llm_judge = \<lparr>ev_type = ''llm_judge'', ev_value = [], ev_pattern = []\<rparr>"

definition output_OK :: execution_result where
  "output_OK = \<lparr>stdout = ''OK''\<rparr>"

text \<open>A local scenario with one mock, one step and one evaluator, judged by \<^verbatim>\<open>all_pass\<close>.\<close>

definition sample_scenario :: scenario where
  "sample_scenario =
     \<lparr>plugins = None, environment_type = ''local'', setup_mocks = Some [''generateText''],
      run = [\<lparr>evaluations = Some [contains_OK]\<rparr>], judgment_strategy = Some ''all_pass''\<rparr>"

definition sample_created :: created where
  "sample_created =
     \<lparr>created_server = True, created_runtime = Some \<lparr>getService_e2b = None\<rparr>,
      created_agentId = Some ''agent'', created_createdServer = True\<rparr>"

text \<open>
  A world in which the file holds \<open>sample_scenario\<close>, the factory gives a server, a
  runtime and an agent, the one step prints \<^verbatim>\<open>OK\<close>, and no collaborator raises.
\<close>

definition sample_world :: world where
  "sample_world =
     \<lparr>file_exists = True, load_scenario = Validated sample_scenario,
      parse_plugins = PluginsValid, create_server_agent = (\<lambda>names. Some sample_created),
      apply_mocks_ok = True, setup_ok = True, provider_run = Some [output_OK],
      run_evaluations = (\<lambda>evs result. Some (map (\<lambda>e.
         \<lparr>success = str_includes (stdout result) (ev_value e), message = ev_type e\<rparr>) evs)),
      regexp = sample_regexp, revert_ok = True, teardown_ok = True\<rparr>"

text \<open>The same world, when \<^verbatim>\<open>provider.run\<close> raises.\<close>

definition run_raises_world :: world where
  "run_raises_world = sample_world\<lparr>provider_run := None\<rparr>"

text \<open>
  A world without a runtime: the factory gives a server and an agent only. The
  scenario has no mock and one step, with an evaluator of an invalid pattern followed
  by an evaluator that the output satisfies.
\<close>

definition invalid_pattern_scenario :: scenario where
  "invalid_pattern_scenario =
     \<lparr>plugins = None, environment_type = ''local'', setup_mocks = None,
      run = [\<lparr>evaluations = Some [matches_open_paren, contains_OK]\<rparr>],
      judgment_strategy = Some ''any_pass''\<rparr>"

definition no_runtime_world :: "scenario \<Rightarrow> world" where
  "no_runtime_world scenario =
     sample_world\<lparr>load_scenario := Validated scenario,
       create_server_agent := (\<lambda>names. Some (sample_created\<lparr>created_runtime := None\<rparr>))\<rparr>"

text \<open>A scenario with no step, judged by the given strategy; \<^verbatim>\<open>provider.run\<close> returns no result.\<close>

definition empty_run_world :: "string \<Rightarrow> world" where
  "empty_run_world strategy =
     sample_world\<lparr>load_scenario :=
         Validated (sample_scenario\<lparr>run := [], judgment_strategy := Some strategy\<rparr>),
       provider_run := Some []\<rparr>"

text \<open>The sample scenario judged by the given strategy.\<close>

definition judged_world :: "string \<Rightarrow> world" where
  "judged_world strategy =
     sample_world\<lparr>load_scenario :=
       Validated (sample_scenario\<lparr>judgment_strategy := Some strategy\<rparr>)\<rparr>"

text \<open>The sample scenario with \<^verbatim>\<open>setup: {mocks: []}\<close>: the list is declared and holds no mock.\<close>

definition empty_mocks_world :: world where
  "empty_mocks_world =
     sample_world\<lparr>load_scenario := Validated (sample_scenario\<lparr>setup_mocks := Some []\<rparr>)\<rparr>"

text \<open>The sample scenario with the environment type \<^verbatim>\<open>unknown\<close>.\<close>

definition unknown_environment_world :: world where
  "unknown_environment_world =
     sample_world\<lparr>load_scenario := Validated (sample_scenario\<lparr>environment_type := ''unknown''\<rparr>)\<rparr>"

text \<open>Two axes of three and four values, and two runs for each combination.\<close>

definition sample_matrix :: matrix_config where
  "sample_matrix =
     \<lparr>base_scenario = ''base.scenario.yaml'', runs_per_combination = 2,
      matrix = [\<lparr>parameter = ''character.llm.model'', axis_values = [''a'', ''b'', ''c'']\<rparr>,
                \<lparr>parameter = ''run[0].input'', axis_values = [''p'', ''q'', ''r'', ''s'']\<rparr>]\<rparr>"

subsection \<open>Assertions about the action\<close>

text \<open>The events that the try block can emit before it reports the evaluation results.\<close>

fun before_judgment :: "event \<Rightarrow> bool" where
  "before_judgment (ReportEvaluationResults rs) = False"
| "before_judgment RevertMocks = False"
| "before_judgment ProviderTeardown = False"
| "before_judgment E2BStop = False"
| "before_judgment RuntimeClose = False"
| "before_judgment ServerStop = False"
| "before_judgment (ReportFinalResult b) = False"
| "before_judgment e = True"

fun mock_event :: "event \<Rightarrow> bool" where
  "mock_event NewMockEngine = True"
| "mock_event (ApplyMocks mocks) = True"
| "mock_event e = False"

text \<open>The events of the finally block.\<close>

fun finally_event :: "event \<Rightarrow> bool" where
  "finally_event RevertMocks = True"
| "finally_event ProviderTeardown = True"
| "finally_event E2BStop = True"
| "finally_event RuntimeClose = True"
| "finally_event ServerStop = True"
| "finally_event (ReportFinalResult b) = True"
| "finally_event e = False"

text \<open>
  The results that the loops of lines 152 to 160 (with a runtime) or 165 to 197
  (without) accumulate from what \<^verbatim>\<open>provider.run\<close> returns; \<open>None\<close> when one of them raises.
\<close>

definition accumulated_results ::
  "world \<Rightarrow> scenario \<Rightarrow> bool \<Rightarrow> evaluation_result list option" where
  "accumulated_results w scenario with_runtime =
     (case provider_run w of
        None \<Rightarrow> None
      | Some results \<Rightarrow>
          if with_runtime
          then evaluate_runtime_loop (run_evaluations w) (run scenario) results []
          else evaluate_basic_loop (regexp w) (run scenario) results [])"

text \<open>
  What holds of the variables while the try block runs: the status is still false,
  nothing of the judgment or of the finally block has happened, and a mock engine
  exists exactly when its events are in the trace, which needs a runtime, declared
  mocks and no \<^verbatim>\<open>--live\<close>.
\<close>

definition mocks_guarded :: "bool \<Rightarrow> scenario \<Rightarrow> locals \<Rightarrow> bool" where
  "mocks_guarded live scenario s =
     ((list_ex mock_event (trace s) \<longrightarrow> mockEngine s) \<and>
      (mockEngine s \<longrightarrow>
         \<not> live \<and> runtime s \<noteq> None \<and> setup_mocks scenario \<noteq> None \<and>
         (\<exists>mocks. ApplyMocks mocks \<in> set (trace s))))"

definition try_inv :: "bool \<Rightarrow> scenario \<Rightarrow> locals \<Rightarrow> bool" where
  "try_inv live scenario s =
     (\<not> finalStatus s \<and> list_all before_judgment (trace s) \<and> mocks_guarded live scenario s)"

text \<open>What holds when the try block is left, for each way of leaving it.\<close>

definition try_post :: "world \<Rightarrow> bool \<Rightarrow> scenario \<Rightarrow> locals \<times> unit completion \<Rightarrow> bool" where
  "try_post w live scenario r =
     (case r of
        (s, Completed u) \<Rightarrow>
          mocks_guarded live scenario s \<and> provider s \<noteq> None \<and>
          (\<exists>rs tr. trace s = tr @ [ReportEvaluationResults rs] \<and> list_all before_judgment tr \<and>
             accumulated_results w scenario (runtime s \<noteq> None) = Some rs \<and>
             finalStatus s = judge (judgment_strategy scenario) rs)
      | (s, Raised) \<Rightarrow> try_inv live scenario s
      | (s, Exited code) \<Rightarrow> code = 1 \<and> try_inv live scenario s)"

text \<open>What the finally block does to the state \<open>s\<close> in which it starts.\<close>

definition finally_post :: "locals \<Rightarrow> locals \<times> unit completion \<Rightarrow> bool" where
  "finally_post s r =
     (case r of (s', c) \<Rightarrow>
        finalStatus s' = finalStatus s \<and> runtime s' = runtime s \<and>
        mockEngine s' = mockEngine s \<and>
        (c = Raised \<or> c = Exited (if finalStatus s then 0 else 1)) \<and>
        (\<exists>evs. trace s' = trace s @ evs \<and> list_all finally_event evs \<and>
           (\<forall>b. ReportFinalResult b \<in> set evs \<longrightarrow> b = finalStatus s) \<and>
           count_list evs RevertMocks = (if mockEngine s then 1 else 0) \<and>
           (mockEngine s \<longrightarrow> take 1 evs = [RevertMocks]) \<and>
           (c \<noteq> Raised \<and> provider s \<noteq> None \<longrightarrow> ProviderTeardown \<in> set evs)))"


section \<open>Properties\<close>

subsection \<open>Unfolding the action\<close>

lemmas stage_defs = read_scenario_def check_plugins_def report_start_def select_provider_def
  create_and_assign_def initialize_mocks_def provider_setup_def provider_run_and_report_def
  run_all_evaluations_def report_and_judge_def revert_mocks_def teardown_def close_runtime_def
  stop_server_def report_and_exit_def catch_block_def

lemmas action_defs = run_action_def try_catch_finally_def try_block_def finally_block_def
  and_then_def emit_def initial_def stage_defs finalPlugins_def scenarioPlugins_def

lemmas sample_defs = sample_world_def sample_scenario_def sample_created_def run_raises_world_def
  no_runtime_world_def invalid_pattern_scenario_def empty_run_world_def judged_world_def
  unknown_environment_world_def empty_mocks_world_def contains_OK_def matches_open_paren_def matches_OK_def
  llm_judge_def output_OK_def sample_regexp_def

lemma and_then_simps [simp]:
  "and_then (s, Completed x) f = f s x"
  "and_then (s, Raised) f = (s, Raised)"
  "and_then (s, Exited code) f = (s, Exited code)"
  by (simp_all add: and_then_def)

lemma try_post_simps [simp]:
  "try_post w live sc (s, Raised) = try_inv live sc s"
  "try_post w live sc (s, Exited code) = (code = 1 \<and> try_inv live sc s)"
  by (simp_all add: try_post_def)

subsection \<open>The try block, stage by stage from its end\<close>

lemma tail_run:
  assumes "try_inv live sc s" "provider s \<noteq> None"
  shows "try_post w live sc
     (and_then (provider_setup w s) (\<lambda>s u.
      and_then (provider_run_and_report w s) (\<lambda>s results.
      and_then (run_all_evaluations w sc results s) (\<lambda>s allEvaluationResults.
      report_and_judge sc allEvaluationResults s))))"
  using assms
  by (auto simp: provider_setup_def provider_run_and_report_def run_all_evaluations_def
      report_and_judge_def emit_def Let_def try_inv_def mocks_guarded_def try_post_def
      accumulated_results_def list_ex_iff list_all_iff image_iff
      split: option.split)

lemma tail_mocks:
  assumes "try_inv live sc s" "\<not> mockEngine s" "provider s \<noteq> None"
  shows "try_post w live sc
     (and_then (initialize_mocks w live sc s) (\<lambda>s u.
      and_then (provider_setup w s) (\<lambda>s u.
      and_then (provider_run_and_report w s) (\<lambda>s results.
      and_then (run_all_evaluations w sc results s) (\<lambda>s allEvaluationResults.
      report_and_judge sc allEvaluationResults s)))))"
proof (cases "\<exists>mocks. setup_mocks sc = Some mocks \<and> runtime s \<noteq> None \<and> \<not> live")
  case False
  then have "initialize_mocks w live sc s = (s, Completed ())"
    by (auto simp: initialize_mocks_def split: option.split)
  then show ?thesis using assms by (simp add: tail_run)
next
  case True
  then obtain mocks where m: "setup_mocks sc = Some mocks" "runtime s \<noteq> None" "\<not> live"
    by blast
  define s2 where "s2 = emit (ApplyMocks mocks) (emit NewMockEngine (s\<lparr>mockEngine := True\<rparr>))"
  have inv: "try_inv live sc s2" and prov: "provider s2 \<noteq> None"
    using assms m by (auto simp: s2_def try_inv_def mocks_guarded_def emit_def)
  have "initialize_mocks w live sc s = (s2, if apply_mocks_ok w then Completed () else Raised)"
    using m by (simp add: initialize_mocks_def s2_def Let_def)
  then show ?thesis using inv prov by (simp add: tail_run)
qed

lemma tail_select:
  assumes "try_inv live sc s" "\<not> mockEngine s"
  shows "try_post w live sc
     (and_then (select_provider w sc s) (\<lambda>s u.
      and_then (initialize_mocks w live sc s) (\<lambda>s u.
      and_then (provider_setup w s) (\<lambda>s u.
      and_then (provider_run_and_report w s) (\<lambda>s results.
      and_then (run_all_evaluations w sc results s) (\<lambda>s allEvaluationResults.
      report_and_judge sc allEvaluationResults s))))))"
proof -
  have sel: "case select_provider w sc s of
      (s1, Completed u) \<Rightarrow> try_inv live sc s1 \<and> \<not> mockEngine s1 \<and> provider s1 \<noteq> None
    | (s1, Raised) \<Rightarrow> try_inv live sc s1
    | (s1, Exited code) \<Rightarrow> code = 1 \<and> try_inv live sc s1"
    using assms
    by (auto simp: select_provider_def create_and_assign_def and_then_def emit_def Let_def
        try_inv_def mocks_guarded_def split: option.split)
  show ?thesis
  proof (cases "select_provider w sc s")
    case (Pair s1 c)
    then show ?thesis using sel by (cases c) (simp_all add: tail_mocks)
  qed
qed

lemma try_block_post:
  assumes "load_scenario w = Validated sc"
  shows "try_post w live sc (try_block w live initial)"
proof -
  have init: "try_inv live sc initial" "\<not> mockEngine initial"
    by (simp_all add: try_inv_def mocks_guarded_def initial_def)
  then have start: "try_inv live sc (emit ReportStart (initial\<lparr>reporter := True\<rparr>))"
    "\<not> mockEngine (emit ReportStart (initial\<lparr>reporter := True\<rparr>))"
    by (simp_all add: try_inv_def mocks_guarded_def emit_def)
  show ?thesis
    using assms init start
    by (simp add: try_block_def read_scenario_def check_plugins_def report_start_def tail_select
        split: option.split list.split plugin_check.split)
qed

lemma try_block_not_loaded:
  assumes "\<forall>sc. load_scenario w \<noteq> Validated sc"
  shows "try_block w live initial = (initial, Raised) \<or>
         try_block w live initial = (initial, Exited 1)"
  using assms by (cases "load_scenario w") (simp_all add: try_block_def read_scenario_def)

subsection \<open>The finally block and the whole action\<close>

lemma finally_block_post: "finally_post s (finally_block w s)"
  by (simp add: finally_post_def finally_block_def revert_mocks_def teardown_def close_runtime_def
      stop_server_def report_and_exit_def emit_def Let_def split: option.split)

lemma run_action_eq:
  "run_action w live =
     (case try_block w live initial of
        (s1, Completed u) \<Rightarrow> finally_block w s1
      | (s1, Raised) \<Rightarrow> (s1, Exited 1)
      | (s1, Exited code) \<Rightarrow> (s1, Exited code))"
  by (simp add: run_action_def try_catch_finally_def catch_block_def
      split: prod.split completion.split)

text \<open>
  Every run of the action is of one of two kinds. Either the try block was left
  early: the process exits with code 1 from the state reached, without the finally
  block. Or the try block completed: the finally block runs from the state reached.
\<close>

lemma run_action_cases:
  assumes "run_action w live = (s', c)"
  obtains
    (aborted) "c = Exited 1" "\<not> finalStatus s'" "list_all before_judgment (trace s')"
      "\<And>sc. load_scenario w = Validated sc \<Longrightarrow> mocks_guarded live sc s'"
      "(\<forall>sc. load_scenario w \<noteq> Validated sc) \<Longrightarrow> s' = initial"
  | (completed) sc s1 rs tr where
      "load_scenario w = Validated sc" "try_block w live initial = (s1, Completed ())"
      "finally_block w s1 = (s', c)" "mocks_guarded live sc s1" "provider s1 \<noteq> None"
      "trace s1 = tr @ [ReportEvaluationResults rs]" "list_all before_judgment tr"
      "accumulated_results w sc (runtime s1 \<noteq> None) = Some rs"
      "finalStatus s1 = judge (judgment_strategy sc) rs"
proof (cases "\<exists>sc. load_scenario w = Validated sc")
  case False
  then have nl: "\<forall>sc. load_scenario w \<noteq> Validated sc" by simp
  from try_block_not_loaded[OF nl, of live] assms
  have "s' = initial \<and> c = Exited 1" by (auto simp: run_action_eq)
  then show ?thesis using nl by (intro aborted) (simp_all add: initial_def)
next
  case True
  then obtain sc where sc: "load_scenario w = Validated sc" by blast
  obtain s1 c1 where t: "try_block w live initial = (s1, c1)" by (cases "try_block w live initial")
  have post: "try_post w live sc (s1, c1)" using try_block_post[OF sc, of live] t by simp
  show ?thesis
  proof (cases c1)
    case (Completed u)
    then show ?thesis using post t sc assms
      by (auto simp: try_post_def run_action_eq intro: completed)
  next
    case Raised
    then have "s' = s1" "c = Exited 1" using t assms by (simp_all add: run_action_eq)
    then show ?thesis using post Raised sc by (intro aborted) (auto simp: try_inv_def)
  next
    case (Exited code)
    with post have "code = 1" by simp
    with Exited have "s' = s1" "c = Exited 1" using t assms by (simp_all add: run_action_eq)
    then show ?thesis using post Exited sc by (intro aborted) (auto simp: try_inv_def)
  qed
qed


subsection \<open>Substring search\<close>

lemma starts_with_iff: "starts_with s v \<longleftrightarrow> (\<exists>ss. s = v @ ss)"
  by (induction s v rule: starts_with.induct) auto

lemma str_includes_iff: "str_includes s v \<longleftrightarrow> (\<exists>ps ss. s = ps @ v @ ss)"
proof (induction s)
  case Nil
  then show ?case by (simp add: starts_with_iff)
next
  case (Cons d s)
  show ?case
  proof
    assume "str_includes (d # s) v"
    then consider "starts_with (d # s) v" | "str_includes s v" by auto
    then show "\<exists>ps ss. d # s = ps @ v @ ss"
    proof cases
      case 1
      then obtain ss where "d # s = v @ ss" by (auto simp: starts_with_iff)
      then have "d # s = [] @ v @ ss" by simp
      then show ?thesis by blast
    next
      case 2
      then obtain ps ss where "s = ps @ v @ ss" using Cons.IH by blast
      then have "d # s = (d # ps) @ v @ ss" by simp
      then show ?thesis by blast
    qed
  next
    assume "\<exists>ps ss. d # s = ps @ v @ ss"
    then obtain ps ss where eq: "d # s = ps @ v @ ss" by blast
    show "str_includes (d # s) v"
    proof (cases ps)
      case Nil
      then have "starts_with (d # s) v" using eq by (auto simp: starts_with_iff)
      then show ?thesis by simp
    next
      case (Cons p ps')
      then have "s = ps' @ v @ ss" using eq by simp
      then have "str_includes s v" using Cons.IH by blast
      then show ?thesis by simp
    qed
  qed
qed

lemma string_contains_examples:
  "str_includes ''hello world'' ''world''"
  "\<not> str_includes ''hello world'' ''xyz''"
  "\<not> str_includes ''hello world'' ''World''"
  "\<not> str_includes ''hello world'' ''hello  world''"
  by simp_all

text \<open>
  C7. A \<^verbatim>\<open>string_contains\<close> evaluator always yields a result, and the result succeeds
  exactly when the configured value occurs in the captured output as it is written:
  the output is some text, then the value unit for unit, then some text.
\<close>

theorem string_contains_success:
  assumes "ev_type e = ''string_contains''"
  shows "\<exists>r. evaluate_basic rx e res = Some r \<and>
           (success r \<longleftrightarrow> (\<exists>ps ss. stdout res = ps @ ev_value e @ ss))"
  using assms by (simp add: evaluate_basic_def Let_def str_includes_iff)

theorem string_contains_success_witness:
  "ev_type contains_OK = ''string_contains'' \<and>
   (\<exists>r. evaluate_basic sample_regexp contains_OK output_OK = Some r \<and>
      (success r \<longleftrightarrow> (\<exists>ps ss. stdout output_OK = ps @ ev_value contains_OK @ ss)))"
proof -
  have h: "ev_type contains_OK = ''string_contains''" by (simp add: contains_OK_def)
  show ?thesis using h string_contains_success [OF h, of sample_regexp output_OK] by simp
qed

text \<open>
  C8. Without a runtime, an evaluator of any other kind than \<^verbatim>\<open>string_contains\<close> and
  \<^verbatim>\<open>regex_match\<close> yields a result, which is a failure whose message names the kind and
  says that it requires a runtime; nothing is raised, and the loop goes on with the
  evaluators that follow.
\<close>

theorem unknown_evaluator_fails:
  assumes "ev_type e \<noteq> ''string_contains''" "ev_type e \<noteq> ''regex_match''"
  shows "evaluate_basic rx e res =
           Some \<lparr>success = False,
                 message = ''Unknown evaluator type: '' @ [CHR 0x27] @ ev_type e @ [CHR 0x27]
                   @ '' (requires runtime)''\<rparr> \<and>
         evaluate_step_basic rx (e # rest) res acc =
           evaluate_step_basic rx rest res
             (acc @ [\<lparr>success = False,
                      message = ''Unknown evaluator type: '' @ [CHR 0x27] @ ev_type e
                        @ [CHR 0x27] @ '' (requires runtime)''\<rparr>])"
  using assms by (simp add: evaluate_basic_def)

theorem unknown_evaluator_fails_witness:
  "ev_type llm_judge \<noteq> ''string_contains'' \<and> ev_type llm_judge \<noteq> ''regex_match'' \<and>
   evaluate_basic sample_regexp llm_judge output_OK =
     Some \<lparr>success = False,
           message = ''Unknown evaluator type: '' @ [CHR 0x27] @ ''llm_judge'' @ [CHR 0x27]
             @ '' (requires runtime)''\<rparr>"
proof -
  have h1: "ev_type llm_judge \<noteq> ''string_contains''" by (simp add: llm_judge_def)
  have h2: "ev_type llm_judge \<noteq> ''regex_match''" by (simp add: llm_judge_def)
  show ?thesis
    using h1 h2 unknown_evaluator_fails [OF h1 h2, of sample_regexp output_OK]
    by (simp add: llm_judge_def)
qed

subsection \<open>Matrix\<close>

lemma foldl_product:
  "foldl (\<lambda>total axis. total * length (axis_values axis)) n axes =
     n * prod_list (map (\<lambda>axis. length (axis_values axis)) axes)"
  by (induction axes arbitrary: n) (simp_all add: mult.assoc)

lemma length_combinations_of:
  "length (combinations_of axes) = prod_list (map (\<lambda>axis. length (axis_values axis)) axes)"
proof (induction axes)
  case Nil
  then show ?case by simp
next
  case (Cons axis axes)
  have "length (combinations_of (axis # axes)) =
          sum_list (map (\<lambda>v. length (combinations_of axes)) (axis_values axis))"
    by (simp add: length_concat comp_def)
  also have "\<dots> = length (axis_values axis) * length (combinations_of axes)"
    by (simp add: sum_list_const_mult sum_list_triv)
  finally show ?case using Cons.IH by simp
qed

text \<open>The combinations generated in line 362 are as many as line 329 counts.\<close>

lemma length_generateParameterCombinations:
  "length (generateParameterCombinations config) = calculateTotalCombinations config"
  by (simp add: generateParameterCombinations_def calculateTotalCombinations_def foldl_product
      length_combinations_of)

text \<open>
  C9. The total of combinations is the product of the numbers of values of the axes,
  which is 1 when there is no axis, and the total of runs is that product times
  \<^verbatim>\<open>runs_per_combination\<close>.
\<close>

theorem matrix_totals:
  "calculateTotalCombinations config =
     prod_list (map (\<lambda>axis. length (axis_values axis)) (matrix config)) \<and>
   calculateTotalRuns config = calculateTotalCombinations config * runs_per_combination config \<and>
   (matrix config = [] \<longrightarrow> calculateTotalCombinations config = 1)"
  by (simp add: calculateTotalCombinations_def calculateTotalRuns_def foldl_product)

theorem matrix_totals_witness:
  "calculateTotalCombinations sample_matrix = 12 \<and> calculateTotalRuns sample_matrix = 24"
  using matrix_totals [of sample_matrix] by (simp add: sample_matrix_def)


subsection \<open>What the trace says about a run\<close>

lemma finally_not_mock: "finally_event e \<Longrightarrow> \<not> mock_event e"
  by (cases e) simp_all

lemma finally_not_report: "finally_event e \<Longrightarrow> e \<noteq> ReportEvaluationResults rs"
  by (cases e) simp_all

text \<open>
  The results reported to the reporter are the accumulated ones, the status is their
  judgment, and the process exits with the code of the status unless the finally block
  raises.
\<close>

lemma reported_results:
  assumes "load_scenario w = Validated sc" "run_action w live = (s', c)"
    "ReportEvaluationResults rs \<in> set (trace s')"
  shows "finalStatus s' = judge (judgment_strategy sc) rs"
    and "c = Raised \<or> c = Exited (if finalStatus s' then 0 else 1)"
    and "accumulated_results w sc (runtime s' \<noteq> None) = Some rs"
    and "\<forall>b. ReportFinalResult b \<in> set (trace s') \<longrightarrow> b = finalStatus s'"
proof -
  from assms(2) have "finalStatus s' = judge (judgment_strategy sc) rs \<and>
     (c = Raised \<or> c = Exited (if finalStatus s' then 0 else 1)) \<and>
     accumulated_results w sc (runtime s' \<noteq> None) = Some rs \<and>
     (\<forall>b. ReportFinalResult b \<in> set (trace s') \<longrightarrow> b = finalStatus s')"
  proof (cases rule: run_action_cases)
    case aborted
    then show ?thesis using assms(3) by (auto simp: list_all_iff)
  next
    case (completed sc1 s1 rs1 tr)
    have sc1: "sc1 = sc" using completed(1) assms(1) by simp
    have fp: "finally_post s1 (s', c)" using finally_block_post[of s1 w] completed(3) by simp
    then obtain evs where evs: "trace s' = trace s1 @ evs" "list_all finally_event evs"
      "\<forall>b. ReportFinalResult b \<in> set evs \<longrightarrow> b = finalStatus s1"
      by (auto simp: finally_post_def)
    have "rs = rs1"
      using assms(3) evs completed(6,7) by (auto simp: list_all_iff dest: finally_not_report)
    moreover have "\<forall>b. ReportFinalResult b \<notin> set (trace s1)"
      using completed(6,7) by (auto simp: list_all_iff)
    ultimately show ?thesis using fp completed sc1 evs
      by (auto simp: finally_post_def)
  qed
  then show "finalStatus s' = judge (judgment_strategy sc) rs"
    and "c = Raised \<or> c = Exited (if finalStatus s' then 0 else 1)"
    and "accumulated_results w sc (runtime s' \<noteq> None) = Some rs"
    and "\<forall>b. ReportFinalResult b \<in> set (trace s') \<longrightarrow> b = finalStatus s'"
    by blast+
qed

text \<open>
  A run that reports no evaluation results has left the try block early: the process
  exits with code 1 without the finally block.
\<close>

lemma not_reported_exits:
  assumes "run_action w live = (s', c)" "\<forall>rs. ReportEvaluationResults rs \<notin> set (trace s')"
  shows "c = Exited 1" and "\<not> finalStatus s'" and "list_all before_judgment (trace s')"
proof -
  from assms(1) have "c = Exited 1 \<and> \<not> finalStatus s' \<and> list_all before_judgment (trace s')"
  proof (cases rule: run_action_cases)
    case aborted
    then show ?thesis by simp
  next
    case (completed sc1 s1 rs1 tr)
    have "finally_post s1 (s', c)" using finally_block_post[of s1 w] completed(3) by simp
    then have "ReportEvaluationResults rs1 \<in> set (trace s')"
      using completed(6) by (auto simp: finally_post_def)
    then show ?thesis using assms(2) by blast
  qed
  then show "c = Exited 1" and "\<not> finalStatus s'" and "list_all before_judgment (trace s')"
    by blast+
qed

text \<open>Mock events in the trace: the guard of line 127 held, and the engine exists.\<close>

lemma mock_events_guarded:
  assumes "run_action w live = (s', c)" "e \<in> set (trace s')" "mock_event e"
  shows "mockEngine s' \<and> \<not> live \<and> runtime s' \<noteq> None \<and>
         (\<exists>sc mocks. load_scenario w = Validated sc \<and> setup_mocks sc = Some mocks)"
  using assms(1)
proof (cases rule: run_action_cases)
  case aborted
  show ?thesis
  proof (cases "\<exists>sc. load_scenario w = Validated sc")
    case True
    then obtain sc where sc: "load_scenario w = Validated sc" by blast
    from aborted(4)[OF sc] assms(2,3) sc show ?thesis
      by (auto simp: mocks_guarded_def list_ex_iff)
  next
    case False
    then have "s' = initial" using aborted(5) by simp
    then show ?thesis using assms(2) by (simp add: initial_def)
  qed
next
  case (completed sc s1 rs tr)
  have fp: "finally_post s1 (s', c)" using finally_block_post[of s1 w] completed(3) by simp
  then obtain evs where evs: "trace s' = trace s1 @ evs" "list_all finally_event evs"
    by (auto simp: finally_post_def)
  have "e \<in> set (trace s1)"
    using assms(2,3) evs by (auto simp: list_all_iff dest: finally_not_mock)
  then show ?thesis using completed(1,4) assms(3) fp
    by (auto simp: mocks_guarded_def list_ex_iff finally_post_def)
qed

lemma mock_engine_guarded:
  assumes "run_action w live = (s', c)" "mockEngine s'"
  shows "\<not> live \<and> runtime s' \<noteq> None \<and>
         (\<exists>sc mocks. load_scenario w = Validated sc \<and> setup_mocks sc = Some mocks)"
  using assms(1)
proof (cases rule: run_action_cases)
  case aborted
  show ?thesis
  proof (cases "\<exists>sc. load_scenario w = Validated sc")
    case True
    then obtain sc where sc: "load_scenario w = Validated sc" by blast
    from aborted(4)[OF sc] assms(2) sc show ?thesis
      by (auto simp: mocks_guarded_def)
  next
    case False
    then have "s' = initial" using aborted(5) by simp
    then show ?thesis using assms(2) by (simp add: initial_def)
  qed
next
  case (completed sc s1 rs tr)
  have fp: "finally_post s1 (s', c)" using finally_block_post[of s1 w] completed(3) by simp
  then show ?thesis using completed(1,4) assms(2)
    by (auto simp: mocks_guarded_def finally_post_def)
qed


subsection \<open>Sample runs\<close>

lemma set_from_defaultPlugins: "set_from [] defaultPlugins = defaultPlugins"
  by (simp add: defaultPlugins_def)

lemma run_empty_all_pass:
  "trace (fst (run_action (empty_run_world ''all_pass'') False)) =
     [ReportStart, CreateScenarioServerAndAgent defaultPlugins,
      NewProvider LocalEnvironmentProvider, NewMockEngine, ApplyMocks [''generateText''],
      ProviderSetup, ProviderRun, NewEvaluationEngine, ReportEvaluationResults [],
      RevertMocks, ProviderTeardown, RuntimeClose, ServerStop, ReportFinalResult True]"
  "snd (run_action (empty_run_world ''all_pass'') False) = Exited 0"
  by (simp_all add: action_defs sample_defs judge_def set_from_defaultPlugins)

lemma run_empty_any_pass:
  "trace (fst (run_action (empty_run_world ''any_pass'') False)) =
     [ReportStart, CreateScenarioServerAndAgent defaultPlugins,
      NewProvider LocalEnvironmentProvider, NewMockEngine, ApplyMocks [''generateText''],
      ProviderSetup, ProviderRun, NewEvaluationEngine, ReportEvaluationResults [],
      RevertMocks, ProviderTeardown, RuntimeClose, ServerStop, ReportFinalResult False]"
  "snd (run_action (empty_run_world ''any_pass'') False) = Exited 1"
  by (simp_all add: action_defs sample_defs judge_def set_from_defaultPlugins)

lemma run_judged_majority:
  "trace (fst (run_action (judged_world ''majority'') False)) =
     [ReportStart, CreateScenarioServerAndAgent defaultPlugins,
      NewProvider LocalEnvironmentProvider, NewMockEngine, ApplyMocks [''generateText''],
      ProviderSetup, ProviderRun, ReportExecutionResult output_OK, NewEvaluationEngine,
      ReportEvaluationResults [\<lparr>success = True, message = ''string_contains''\<rparr>],
      RevertMocks, ProviderTeardown, RuntimeClose, ServerStop, ReportFinalResult False]"
  "snd (run_action (judged_world ''majority'') False) = Exited 1"
  by (simp_all add: action_defs sample_defs judge_def set_from_defaultPlugins)

lemma run_sample_live:
  "trace (fst (run_action sample_world True)) =
     [ReportStart, CreateScenarioServerAndAgent defaultPlugins,
      NewProvider LocalEnvironmentProvider,
      ProviderSetup, ProviderRun, ReportExecutionResult output_OK, NewEvaluationEngine,
      ReportEvaluationResults [\<lparr>success = True, message = ''string_contains''\<rparr>],
      ProviderTeardown, RuntimeClose, ServerStop, ReportFinalResult True]"
  "snd (run_action sample_world True) = Exited 0"
  by (simp_all add: action_defs sample_defs judge_def set_from_defaultPlugins)

lemma run_unknown_environment:
  "trace (fst (run_action unknown_environment_world False)) = [ReportStart]"
  "snd (run_action unknown_environment_world False) = Exited 1"
  by (simp_all add: action_defs sample_defs set_from_defaultPlugins)


subsection \<open>Judgment\<close>

text \<open>
  C4. With the strategy \<^verbatim>\<open>all_pass\<close>, the judgment of a sequence is true exactly
  when each of its results succeeded. In a run that reported the accumulated results
  \<open>rs\<close>, the final status is true exactly when every result of \<open>rs\<close> succeeded, this
  status is what the reporter receives, and the process exits with 0 when it is true
  and 1 when it is false, unless the finally block raises. For no result at all
  the status is true.
\<close>

theorem all_pass_verdict:
  assumes "load_scenario w = Validated sc" "judgment_strategy sc = Some ''all_pass''"
    "run_action w live = (s', c)" "ReportEvaluationResults rs \<in> set (trace s')"
  shows "(\<forall>qs. judge (judgment_strategy sc) qs = (\<forall>r \<in> set qs. success r)) \<and>
         finalStatus s' = (\<forall>r \<in> set rs. success r) \<and>
         (rs = [] \<longrightarrow> finalStatus s') \<and>
         (\<forall>b. ReportFinalResult b \<in> set (trace s') \<longrightarrow> b = (\<forall>r \<in> set rs. success r)) \<and>
         (c = Raised \<or> c = Exited (if (\<forall>r \<in> set rs. success r) then 0 else 1))"
proof -
  have j: "\<And>qs. judge (judgment_strategy sc) qs = (\<forall>r \<in> set qs. success r)"
    using assms(2) by (simp add: judge_def list_all_iff)
  have f: "finalStatus s' = (\<forall>r \<in> set rs. success r)"
    using reported_results(1)[OF assms(1,3,4)] j by simp
  show ?thesis
    using j f reported_results(2)[OF assms(1,3,4)] reported_results(4)[OF assms(1,3,4)]
    by auto
qed

theorem all_pass_verdict_witness:
  "ReportEvaluationResults [] \<in> set (trace (fst (run_action (empty_run_world ''all_pass'') False))) \<and>
   finalStatus (fst (run_action (empty_run_world ''all_pass'') False)) \<and>
   snd (run_action (empty_run_world ''all_pass'') False) = Exited 0"
proof -
  let ?w = "empty_run_world ''all_pass''"
  let ?sc = "sample_scenario\<lparr>run := [], judgment_strategy := Some ''all_pass''\<rparr>"
  have h1: "load_scenario ?w = Validated ?sc" by (simp add: empty_run_world_def sample_world_def)
  have h2: "judgment_strategy ?sc = Some ''all_pass''" by simp
  have h3: "run_action ?w False = (fst (run_action ?w False), snd (run_action ?w False))" by simp
  have h4: "ReportEvaluationResults [] \<in> set (trace (fst (run_action ?w False)))"
    by (simp add: run_empty_all_pass)
  show ?thesis
    using h4 all_pass_verdict [OF h1 h2 h3 h4] by (simp add: run_empty_all_pass)
qed

text \<open>
  C5. With the strategy \<^verbatim>\<open>any_pass\<close>, the judgment of a sequence is true exactly
  when one of its results succeeded. In a run that reported the accumulated results
  \<open>rs\<close>, the final status is true exactly when some result of \<open>rs\<close> succeeded, this
  status is what the reporter receives, and the process exits with 0 when it is true
  and 1 when it is false, unless the finally block raises. For no result at all
  the status is false.
\<close>

theorem any_pass_verdict:
  assumes "load_scenario w = Validated sc" "judgment_strategy sc = Some ''any_pass''"
    "run_action w live = (s', c)" "ReportEvaluationResults rs \<in> set (trace s')"
  shows "(\<forall>qs. judge (judgment_strategy sc) qs = (\<exists>r \<in> set qs. success r)) \<and>
         finalStatus s' = (\<exists>r \<in> set rs. success r) \<and>
         (rs = [] \<longrightarrow> \<not> finalStatus s') \<and>
         (\<forall>b. ReportFinalResult b \<in> set (trace s') \<longrightarrow> b = (\<exists>r \<in> set rs. success r)) \<and>
         (c = Raised \<or> c = Exited (if (\<exists>r \<in> set rs. success r) then 0 else 1))"
proof -
  have j: "\<And>qs. judge (judgment_strategy sc) qs = (\<exists>r \<in> set qs. success r)"
    using assms(2) by (simp add: judge_def list_ex_iff)
  have f: "finalStatus s' = (\<exists>r \<in> set rs. success r)"
    using reported_results(1)[OF assms(1,3,4)] j by simp
  show ?thesis
    using j f reported_results(2)[OF assms(1,3,4)] reported_results(4)[OF assms(1,3,4)]
    by auto
qed

theorem any_pass_verdict_witness:
  "ReportEvaluationResults [] \<in> set (trace (fst (run_action (empty_run_world ''any_pass'') False))) \<and>
   \<not> finalStatus (fst (run_action (empty_run_world ''any_pass'') False)) \<and>
   snd (run_action (empty_run_world ''any_pass'') False) = Exited 1"
proof -
  let ?w = "empty_run_world ''any_pass''"
  let ?sc = "sample_scenario\<lparr>run := [], judgment_strategy := Some ''any_pass''\<rparr>"
  have h1: "load_scenario ?w = Validated ?sc" by (simp add: empty_run_world_def sample_world_def)
  have h2: "judgment_strategy ?sc = Some ''any_pass''" by simp
  have h3: "run_action ?w False = (fst (run_action ?w False), snd (run_action ?w False))" by simp
  have h4: "ReportEvaluationResults [] \<in> set (trace (fst (run_action ?w False)))"
    by (simp add: run_empty_any_pass)
  show ?thesis
    using h4 any_pass_verdict [OF h1 h2 h3 h4] by (simp add: run_empty_any_pass)
qed

text \<open>
  C6. With any other strategy than \<^verbatim>\<open>all_pass\<close> and \<^verbatim>\<open>any_pass\<close>, also with none,
  the judgment of every sequence is false, and in every run the final status is false,
  the reporter receives no true status and the process does not exit with 0.
\<close>

theorem unknown_strategy_verdict:
  assumes "load_scenario w = Validated sc" "judgment_strategy sc \<noteq> Some ''all_pass''"
    "judgment_strategy sc \<noteq> Some ''any_pass''" "run_action w live = (s', c)"
  shows "(\<forall>qs. \<not> judge (judgment_strategy sc) qs) \<and> \<not> finalStatus s' \<and>
         (\<forall>b. ReportFinalResult b \<in> set (trace s') \<longrightarrow> \<not> b) \<and> c \<noteq> Exited 0"
proof -
  have j: "\<And>qs. \<not> judge (judgment_strategy sc) qs"
    using assms(2,3) by (simp add: judge_def)
  show ?thesis
  proof (cases "\<exists>rs. ReportEvaluationResults rs \<in> set (trace s')")
    case True
    then obtain rs where rs: "ReportEvaluationResults rs \<in> set (trace s')" by blast
    have "\<not> finalStatus s'" using reported_results(1)[OF assms(1,4) rs] j by simp
    then show ?thesis
      using j reported_results(2)[OF assms(1,4) rs] reported_results(4)[OF assms(1,4) rs]
      by auto
  next
    case False
    then have n: "\<forall>rs. ReportEvaluationResults rs \<notin> set (trace s')" by simp
    have "\<forall>b. ReportFinalResult b \<notin> set (trace s')"
      using not_reported_exits(3)[OF assms(4) n] by (auto simp: list_all_iff)
    then show ?thesis
      using j not_reported_exits(1)[OF assms(4) n] not_reported_exits(2)[OF assms(4) n]
      by simp
  qed
qed

theorem unknown_strategy_verdict_witness:
  "ReportEvaluationResults [\<lparr>success = True, message = ''string_contains''\<rparr>]
     \<in> set (trace (fst (run_action (judged_world ''majority'') False))) \<and>
   \<not> finalStatus (fst (run_action (judged_world ''majority'') False)) \<and>
   snd (run_action (judged_world ''majority'') False) = Exited 1"
proof -
  let ?w = "judged_world ''majority''"
  let ?sc = "sample_scenario\<lparr>judgment_strategy := Some ''majority''\<rparr>"
  have h1: "load_scenario ?w = Validated ?sc" by (simp add: judged_world_def sample_world_def)
  have h2: "judgment_strategy ?sc \<noteq> Some ''all_pass''" by simp
  have h3: "judgment_strategy ?sc \<noteq> Some ''any_pass''" by simp
  have h4: "run_action ?w False = (fst (run_action ?w False), snd (run_action ?w False))" by simp
  show ?thesis
    using unknown_strategy_verdict [OF h1 h2 h3 h4] by (simp add: run_judged_majority)
qed


subsection \<open>Environment type\<close>

text \<open>
  C3. When the type of the environment is neither \<^verbatim>\<open>local\<close> nor \<^verbatim>\<open>e2b\<close>, the process
  exits with code 1 and a false status, and the only call that can have been made is
  the report of the start: no server, no provider, no mock, no setup, no step, no
  evaluation, no teardown.
\<close>

theorem unsupported_environment_exits:
  assumes "load_scenario w = Validated sc" "environment_type sc \<noteq> ''local''"
    "environment_type sc \<noteq> ''e2b''" "run_action w live = (s', c)"
  shows "c = Exited 1 \<and> \<not> finalStatus s' \<and> provider s' = None \<and>
         set (trace s') \<subseteq> {ReportStart}"
proof -
  have sel: "\<And>s. select_provider w sc s = (s, Exited 1)"
    using assms(2,3) by (simp add: select_provider_def)
  have "try_block w live initial = (initial, Exited 1) \<or>
        try_block w live initial = (initial, Raised) \<or>
        try_block w live initial = (emit ReportStart (initial\<lparr>reporter := True\<rparr>), Exited 1)"
    using assms(1) sel
    by (simp add: try_block_def read_scenario_def check_plugins_def report_start_def
        split: option.split list.split plugin_check.split)
  then show ?thesis
    using assms(4) by (auto simp: run_action_eq initial_def emit_def)
qed

theorem unsupported_environment_exits_witness:
  "environment_type (sample_scenario\<lparr>environment_type := ''unknown''\<rparr>) \<noteq> ''local'' \<and>
   environment_type (sample_scenario\<lparr>environment_type := ''unknown''\<rparr>) \<noteq> ''e2b'' \<and>
   snd (run_action unknown_environment_world False) = Exited 1 \<and>
   provider (fst (run_action unknown_environment_world False)) = None \<and>
   set (trace (fst (run_action unknown_environment_world False))) \<subseteq> {ReportStart}"
proof -
  let ?w = "unknown_environment_world"
  let ?sc = "sample_scenario\<lparr>environment_type := ''unknown''\<rparr>"
  have h1: "load_scenario ?w = Validated ?sc"
    by (simp add: unknown_environment_world_def sample_world_def)
  have h2: "environment_type ?sc \<noteq> ''local''" by simp
  have h3: "environment_type ?sc \<noteq> ''e2b''" by simp
  have h4: "run_action ?w False = (fst (run_action ?w False), snd (run_action ?w False))" by simp
  show ?thesis
    using h2 h3 unsupported_environment_exits [OF h1 h2 h3 h4] by simp
qed

subsection \<open>Mocks\<close>

lemma run_empty_mocks:
  "trace (fst (run_action empty_mocks_world False)) =
     [ReportStart, CreateScenarioServerAndAgent defaultPlugins,
      NewProvider LocalEnvironmentProvider, NewMockEngine, ApplyMocks [],
      ProviderSetup, ProviderRun, ReportExecutionResult output_OK, NewEvaluationEngine,
      ReportEvaluationResults [\<lparr>success = True, message = ''string_contains''\<rparr>],
      RevertMocks, ProviderTeardown, RuntimeClose, ServerStop, ReportFinalResult True]"
  "snd (run_action empty_mocks_world False) = Exited 0"
  "mockEngine (fst (run_action empty_mocks_world False))"
  by (simp_all add: action_defs sample_defs judge_def set_from_defaultPlugins)

text \<open>
  C10, as the claim states it, fails: the scenario declares \<^verbatim>\<open>setup.mocks\<close> as the empty
  list, so no mock is declared, and the run is not live. The empty list is truthy in
  line 127: the mock engine is created and \<^verbatim>\<open>applyMocks\<close> is called with the empty list.
\<close>

theorem empty_mocks_counterexample:
  "setup_mocks (sample_scenario\<lparr>setup_mocks := Some []\<rparr>) = Some [] \<and>
   load_scenario empty_mocks_world = Validated (sample_scenario\<lparr>setup_mocks := Some []\<rparr>) \<and>
   trace (fst (run_action empty_mocks_world False)) =
     [ReportStart, CreateScenarioServerAndAgent defaultPlugins,
      NewProvider LocalEnvironmentProvider, NewMockEngine, ApplyMocks [],
      ProviderSetup, ProviderRun, ReportExecutionResult output_OK, NewEvaluationEngine,
      ReportEvaluationResults [\<lparr>success = True, message = ''string_contains''\<rparr>],
      RevertMocks, ProviderTeardown, RuntimeClose, ServerStop, ReportFinalResult True] \<and>
   mockEngine (fst (run_action empty_mocks_world False))"
  by (simp add: run_empty_mocks) (simp add: empty_mocks_world_def sample_world_def)

text \<open>
  C10, amended. In a run with \<^verbatim>\<open>--live\<close>, or of a scenario in which \<^verbatim>\<open>setup.mocks\<close> is
  absent, or in which the runtime variable holds no runtime, no mock engine is created,
  \<^verbatim>\<open>applyMocks\<close> is not called, and the variable \<^verbatim>\<open>mockEngine\<close> stays \<^verbatim>\<open>null\<close>.
\<close>

theorem live_mode_no_mocks:
  assumes "run_action w live = (s', c)"
    "live \<or> (\<forall>sc. load_scenario w = Validated sc \<longrightarrow> setup_mocks sc = None) \<or> runtime s' = None"
  shows "NewMockEngine \<notin> set (trace s') \<and> (\<forall>mocks. ApplyMocks mocks \<notin> set (trace s')) \<and>
         \<not> mockEngine s'"
proof -
  have a: "\<And>e. e \<in> set (trace s') \<Longrightarrow> \<not> mock_event e"
    using mock_events_guarded[OF assms(1)] assms(2) by fastforce
  have b: "\<not> mockEngine s'"
    using mock_engine_guarded[OF assms(1)] assms(2) by fastforce
  show ?thesis
  proof (intro conjI allI)
    show "NewMockEngine \<notin> set (trace s')" using a[of NewMockEngine] by auto
    show "ApplyMocks mocks \<notin> set (trace s')" for mocks using a[of "ApplyMocks mocks"] by auto
    show "\<not> mockEngine s'" by (rule b)
  qed
qed

theorem live_mode_no_mocks_witness:
  "setup_mocks sample_scenario = Some [''generateText''] \<and>
   NewMockEngine \<notin> set (trace (fst (run_action sample_world True))) \<and>
   (\<forall>mocks. ApplyMocks mocks \<notin> set (trace (fst (run_action sample_world True)))) \<and>
   \<not> mockEngine (fst (run_action sample_world True))"
proof -
  have h1: "run_action sample_world True =
      (fst (run_action sample_world True), snd (run_action sample_world True))" by simp
  have h2: "True \<or> (\<forall>sc. load_scenario sample_world = Validated sc \<longrightarrow> setup_mocks sc = None)
      \<or> runtime (fst (run_action sample_world True)) = None" by simp
  show ?thesis
    using live_mode_no_mocks [OF h1 h2] by (simp add: sample_scenario_def)
qed


subsection \<open>Reversion of the mocks\<close>

lemma count_list_none: "x \<notin> set xs \<Longrightarrow> count_list xs x = 0"
  by (induction xs) auto

text \<open>
  When the try block completes after \<^verbatim>\<open>applyMocks\<close>, the mocks are reverted once, and
  nothing of the finally block comes before.
\<close>

lemma revert_once_on_completion:
  assumes "run_action w live = (s', c)" "ReportEvaluationResults rs \<in> set (trace s')"
    "ApplyMocks mocks \<in> set (trace s')"
  shows "count_list (trace s') RevertMocks = 1 \<and>
         (\<exists>pre post. trace s' = pre @ RevertMocks # post \<and> list_all before_judgment (butlast pre) \<and>
            list_all finally_event post)"
  using assms(1)
proof (cases rule: run_action_cases)
  case aborted
  then show ?thesis using assms(2) by (auto simp: list_all_iff)
next
  case (completed sc s1 rs1 tr)
  have fp: "finally_post s1 (s', c)" using finally_block_post[of s1 w] completed(3) by simp
  then obtain evs where evs: "trace s' = trace s1 @ evs" "list_all finally_event evs"
    "count_list evs RevertMocks = (if mockEngine s1 then 1 else 0)"
    "mockEngine s1 \<longrightarrow> take 1 evs = [RevertMocks]"
    by (auto simp: finally_post_def)
  have "ApplyMocks mocks \<in> set (trace s1)"
    using assms(3) evs by (auto simp: list_all_iff dest: finally_not_mock)
  then have "list_ex mock_event (trace s1)"
    unfolding list_ex_iff by (rule bexI[rotated]) simp
  then have me: "mockEngine s1" using completed(4) by (simp add: mocks_guarded_def)
  then obtain post where post: "evs = RevertMocks # post"
    using evs(4) by (cases evs) auto
  have "RevertMocks \<notin> set (trace s1)" using completed(6,7) by (auto simp: list_all_iff)
  then have "count_list (trace s') RevertMocks = 1"
    using evs(1,3) me by (simp add: count_list_none)
  moreover have "trace s' = trace s1 @ RevertMocks # post" using evs(1) post by simp
  moreover have "list_all before_judgment (butlast (trace s1))" using completed(6,7) by simp
  moreover have "list_all finally_event post" using evs(2) post by simp
  ultimately show ?thesis by blast
qed

text \<open>
  When the try block is left early, by an exception or by \<^verbatim>\<open>process.exit\<close>, the
  process exits without the finally block: the mocks are not reverted and the
  environment is not torn down.
\<close>

lemma no_revert_on_abort:
  assumes "run_action w live = (s', c)" "\<forall>rs. ReportEvaluationResults rs \<notin> set (trace s')"
  shows "RevertMocks \<notin> set (trace s') \<and> ProviderTeardown \<notin> set (trace s') \<and> c = Exited 1"
  using not_reported_exits(1)[OF assms] not_reported_exits(3)[OF assms]
  by (auto simp: list_all_iff)

lemma run_run_raises:
  "trace (fst (run_action run_raises_world False)) =
     [ReportStart, CreateScenarioServerAndAgent defaultPlugins,
      NewProvider LocalEnvironmentProvider, NewMockEngine, ApplyMocks [''generateText''],
      ProviderSetup, ProviderRun]"
  "snd (run_action run_raises_world False) = Exited 1"
  "mockEngine (fst (run_action run_raises_world False))"
  by (simp_all add: action_defs sample_defs set_from_defaultPlugins)

text \<open>
  C1. The sample scenario declares a mock and \<^verbatim>\<open>provider.run\<close> raises: \<^verbatim>\<open>applyMocks\<close>
  was called, the catch block ends the process with code 1, and neither
  \<^verbatim>\<open>revertMocks\<close> nor \<^verbatim>\<open>teardown\<close> is called.
\<close>

theorem revert_skipped_when_run_raises:
  "ApplyMocks [''generateText''] \<in> set (trace (fst (run_action run_raises_world False))) \<and>
   count_list (trace (fst (run_action run_raises_world False))) RevertMocks = 0 \<and>
   ProviderTeardown \<notin> set (trace (fst (run_action run_raises_world False))) \<and>
   snd (run_action run_raises_world False) = Exited 1"
  by (simp add: run_run_raises)

subsection \<open>Patterns\<close>

lemma evaluate_step_basic_raises:
  assumes "e \<in> set evs" "evaluate_basic rx e res = None"
  shows "evaluate_step_basic rx evs res acc = None"
  using assms by (induction evs arbitrary: acc) (auto split: option.split)

lemma evaluate_basic_loop_raises:
  assumes "i < length results" "i < length steps" "evaluations (steps ! i) = Some evs"
    "e \<in> set evs" "evaluate_basic rx e (results ! i) = None"
  shows "evaluate_basic_loop rx steps results acc = None"
  using assms
proof (induction rx steps results acc arbitrary: i rule: evaluate_basic_loop.induct)
  case (1 rx steps acc)
  then show ?case by simp
next
  case (2 rx result results acc)
  then show ?case by simp
next
  case (3 rx step steps result results acc)
  show ?case
  proof (cases i)
    case 0
    then have "evaluations step = Some evs" "evaluate_basic rx e result = None"
      using "3.prems" by simp_all
    then have "evaluate_step_basic rx evs result acc = None"
      using "3.prems"(4) evaluate_step_basic_raises by blast
    then show ?thesis
      using \<open>evaluations step = Some evs\<close> "3.prems"(4) by (cases evs) auto
  next
    case (Suc j)
    then have j: "j < length results" "j < length steps" "evaluations (steps ! j) = Some evs"
      "evaluate_basic rx e (results ! j) = None"
      using "3.prems" by simp_all
    show ?thesis
      using "3.IH"(1)[OF _ j(1,2,3) "3.prems"(4) j(4)]
        "3.IH"(2)[OF _ _ j(1,2,3) "3.prems"(4) j(4)]
        "3.IH"(3)[OF _ _ _ j(1,2,3) "3.prems"(4) j(4)]
      by (auto split: option.split list.split)
  qed
qed


lemma run_invalid_pattern:
  "trace (fst (run_action (no_runtime_world invalid_pattern_scenario) False)) =
     [ReportStart, CreateScenarioServerAndAgent defaultPlugins,
      NewProvider LocalEnvironmentProvider, ProviderSetup, ProviderRun,
      ReportExecutionResult output_OK, RunEvaluationsBasic]"
  "snd (run_action (no_runtime_world invalid_pattern_scenario) False) = Exited 1"
  "runtime (fst (run_action (no_runtime_world invalid_pattern_scenario) False)) = None"
  by (simp_all add: action_defs sample_defs set_from_defaultPlugins evaluate_basic_def)

text \<open>
  C2, as the claim states it, fails: the pattern \<^verbatim>\<open>(\<close> does not compile, the evaluator
  yields no result, the evaluator after it is not applied, no evaluation result is
  reported, and the process exits with code 1.
\<close>

theorem invalid_pattern_counterexample:
  "evaluate_basic sample_regexp matches_open_paren output_OK = None \<and>
   evaluate_step_basic sample_regexp [matches_open_paren, contains_OK] output_OK [] = None \<and>
   trace (fst (run_action (no_runtime_world invalid_pattern_scenario) False)) =
     [ReportStart, CreateScenarioServerAndAgent defaultPlugins,
      NewProvider LocalEnvironmentProvider, ProviderSetup, ProviderRun,
      ReportExecutionResult output_OK, RunEvaluationsBasic] \<and>
   snd (run_action (no_runtime_world invalid_pattern_scenario) False) = Exited 1"
  by (simp add: run_invalid_pattern) (simp add: evaluate_basic_def sample_defs)

text \<open>
  C2, amended. Without a runtime, a \<^verbatim>\<open>regex_match\<close> evaluator whose pattern does not
  compile raises: it yields no result, and a run whose step has such an evaluator
  reports no evaluation result, keeps the status false and exits with code 1. When
  the pattern compiles, the evaluator yields a result whose success is the test of the
  expression, compiled for this evaluation, on the captured output.
\<close>

theorem regex_match_evaluation:
  assumes "ev_type e = ''regex_match''"
  shows "(regexp w (ev_pattern e) = None \<longrightarrow>
            (\<forall>res. evaluate_basic (regexp w) e res = None) \<and>
            (\<forall>sc results i evs s' c.
               load_scenario w = Validated sc \<and> provider_run w = Some results \<and>
               i < length results \<and> i < length (run sc) \<and>
               evaluations (run sc ! i) = Some evs \<and> e \<in> set evs \<and>
               run_action w live = (s', c) \<and> runtime s' = None \<longrightarrow>
               c = Exited 1 \<and> \<not> finalStatus s' \<and>
               (\<forall>rs. ReportEvaluationResults rs \<notin> set (trace s')) \<and>
               (\<forall>b. ReportFinalResult b \<notin> set (trace s')))) \<and>
         (\<forall>test. regexp w (ev_pattern e) = Some test \<longrightarrow>
            (\<forall>res. \<exists>m. evaluate_basic (regexp w) e res =
               Some \<lparr>success = test (stdout res), message = m\<rparr>))"
proof -
  have invalid: "evaluate_basic (regexp w) e res = None"
    if "regexp w (ev_pattern e) = None" for res
    using that assms by (simp add: evaluate_basic_def)
  have valid: "\<exists>m. evaluate_basic (regexp w) e res =
      Some \<lparr>success = test (stdout res), message = m\<rparr>"
    if "regexp w (ev_pattern e) = Some test" for test res
    using that assms by (simp add: evaluate_basic_def Let_def)
  have aborts: "c = Exited 1 \<and> \<not> finalStatus s' \<and>
      (\<forall>rs. ReportEvaluationResults rs \<notin> set (trace s')) \<and>
      (\<forall>b. ReportFinalResult b \<notin> set (trace s'))"
    if inv: "regexp w (ev_pattern e) = None"
      and h: "load_scenario w = Validated sc \<and> provider_run w = Some results \<and>
        i < length results \<and> i < length (run sc) \<and>
        evaluations (run sc ! i) = Some evs \<and> e \<in> set evs \<and>
        run_action w live = (s', c) \<and> runtime s' = None"
    for sc results i evs s' c
  proof -
    have loop: "evaluate_basic_loop (regexp w) (run sc) results [] = None"
      using h invalid[OF inv] evaluate_basic_loop_raises by blast
    have run: "run_action w live = (s', c)" using h by simp
    have none: "\<forall>rs. ReportEvaluationResults rs \<notin> set (trace s')"
    proof (intro allI notI)
      fix rs
      assume "ReportEvaluationResults rs \<in> set (trace s')"
      then have "accumulated_results w sc (runtime s' \<noteq> None) = Some rs"
        using reported_results(3) h by blast
      then show False using h loop by (simp add: accumulated_results_def)
    qed
    have "\<forall>b. ReportFinalResult b \<notin> set (trace s')"
      using not_reported_exits(3)[OF run none] by (auto simp: list_all_iff)
    then show ?thesis
      using none not_reported_exits(1)[OF run none] not_reported_exits(2)[OF run none]
      by simp
  qed
  show ?thesis
  proof (intro conjI)
    show "regexp w (ev_pattern e) = None \<longrightarrow>
            (\<forall>res. evaluate_basic (regexp w) e res = None) \<and>
            (\<forall>sc results i evs s' c.
               load_scenario w = Validated sc \<and> provider_run w = Some results \<and>
               i < length results \<and> i < length (run sc) \<and>
               evaluations (run sc ! i) = Some evs \<and> e \<in> set evs \<and>
               run_action w live = (s', c) \<and> runtime s' = None \<longrightarrow>
               c = Exited 1 \<and> \<not> finalStatus s' \<and>
               (\<forall>rs. ReportEvaluationResults rs \<notin> set (trace s')) \<and>
               (\<forall>b. ReportFinalResult b \<notin> set (trace s')))"
      using invalid aborts by blast
    show "\<forall>test. regexp w (ev_pattern e) = Some test \<longrightarrow>
            (\<forall>res. \<exists>m. evaluate_basic (regexp w) e res =
               Some \<lparr>success = test (stdout res), message = m\<rparr>)"
      using valid by blast
  qed
qed

theorem regex_match_evaluation_witness:
  "regexp (no_runtime_world invalid_pattern_scenario) (ev_pattern matches_open_paren) = None \<and>
   evaluate_basic sample_regexp matches_open_paren output_OK = None \<and>
   snd (run_action (no_runtime_world invalid_pattern_scenario) False) = Exited 1 \<and>
   \<not> finalStatus (fst (run_action (no_runtime_world invalid_pattern_scenario) False)) \<and>
   (\<exists>m. evaluate_basic sample_regexp matches_OK output_OK = Some \<lparr>success = True, message = m\<rparr>)"
proof -
  let ?w = "no_runtime_world invalid_pattern_scenario"
  have rx: "regexp ?w = sample_regexp" by (simp add: no_runtime_world_def sample_world_def)
  have h0: "ev_type matches_open_paren = ''regex_match''" by (simp add: matches_open_paren_def)
  have h1: "regexp ?w (ev_pattern matches_open_paren) = None"
    by (simp add: rx sample_regexp_def matches_open_paren_def)
  have h2: "load_scenario ?w = Validated invalid_pattern_scenario \<and>
     provider_run ?w = Some [output_OK] \<and> 0 < length [output_OK] \<and>
     0 < length (run invalid_pattern_scenario) \<and>
     evaluations (run invalid_pattern_scenario ! 0) = Some [matches_open_paren, contains_OK] \<and>
     matches_open_paren \<in> set [matches_open_paren, contains_OK] \<and>
     run_action ?w False = (fst (run_action ?w False), snd (run_action ?w False)) \<and>
     runtime (fst (run_action ?w False)) = None"
  proof -
    have "load_scenario ?w = Validated invalid_pattern_scenario"
      and "provider_run ?w = Some [output_OK]"
      by (simp_all add: no_runtime_world_def sample_world_def)
    moreover have "evaluations (run invalid_pattern_scenario ! 0) =
        Some [matches_open_paren, contains_OK]"
      and "0 < length (run invalid_pattern_scenario)"
      by (simp_all add: invalid_pattern_scenario_def)
    moreover have "run_action ?w False = (fst (run_action ?w False), snd (run_action ?w False))"
      by simp
    ultimately show ?thesis using run_invalid_pattern(3) by simp
  qed
  have k0: "ev_type matches_OK = ''regex_match''" by (simp add: matches_OK_def)
  have k1: "regexp ?w (ev_pattern matches_OK) = Some (\<lambda>out. str_includes out ''OK'')"
    by (simp add: rx sample_regexp_def matches_OK_def)
  from regex_match_evaluation [OF h0, of ?w False] h1 h2
  have a: "evaluate_basic sample_regexp matches_open_paren output_OK = None \<and>
     snd (run_action ?w False) = Exited 1 \<and> \<not> finalStatus (fst (run_action ?w False))"
    unfolding rx by blast
  from regex_match_evaluation [OF k0, of ?w False] k1
  have "\<exists>m. evaluate_basic (regexp ?w) matches_OK output_OK =
     Some \<lparr>success = str_includes (stdout output_OK) ''OK'', message = m\<rparr>"
    by blast
  then have b: "\<exists>m. evaluate_basic sample_regexp matches_OK output_OK = Some \<lparr>success = True, message = m\<rparr>"
    by (simp add: rx output_OK_def)
  show ?thesis using h1 a b by simp
qed

end
